theory Spec2Isabelle
  imports Main "HOL-Library.AList"
begin

section \<open>Values, dictionaries and exceptions\<close>

text \<open>
  A Python \<open>Dict[str, Any]\<close> is an association list in insertion order whose keys are
  distinct. Assigning \<open>d[k] = v\<close> replaces the value in place when \<open>k\<close> is present and
  appends the pair otherwise, which is \<^const>\<open>AList.update\<close>. The values that the core
  itself creates are strings; every other value is carried opaquely.
\<close>

datatype 'a pyval = PyStr string | PyOther 'a

type_synonym 'a pydict = "(string \<times> 'a pyval) list"

text \<open>
  The exceptions the plugin manager meets: the \<open>PluginError\<close> of
  \<open>src/utils/exceptions.py\<close> that it raises, and the \<open>Exception\<close> that importing a plugin
  module or constructing a plugin raises, each with the message \<open>str(e)\<close> gives.
\<close>

datatype exn = Exception string | PluginError string

fun str_exn :: "exn \<Rightarrow> string" where
  "str_exn (Exception m) = m"
| "str_exn (PluginError m) = m"

text \<open>
  An exception object raised by a method of a plugin, given by the two things
  \<open>process_input\<close> does with it: whether it is an instance of \<open>Exception\<close>, which decides
  whether \<open>except Exception\<close> catches it (\<open>KeyboardInterrupt\<close> and \<open>SystemExit\<close> are not),
  and what \<open>str(e)\<close> does, which is to return the message or to raise an exception in
  its turn.
\<close>

datatype py_exception = Raised (is_Exception: bool) (str_of: "py_exception + string")

section \<open>Conversation state (\<open>src/core/conversation.py\<close>)\<close>

record exchange =
  timestamp :: string
  user :: string
  assistant :: string

record ConversationManager =
  conversation_history :: "exchange list"
  initialized :: bool

text \<open>\<open>ConversationManager.__init__\<close>: empty history, not yet initialized.\<close>

definition ConversationManager_init :: ConversationManager where
  "ConversationManager_init = \<lparr>conversation_history = [], initialized = False\<rparr>"

text \<open>\<open>ConversationManager.initialize\<close>: the body only sets the flag.\<close>

definition initialize :: "ConversationManager \<Rightarrow> ConversationManager" where
  "initialize cm = cm\<lparr>initialized := True\<rparr>"

text \<open>The slice \<open>xs[-n:]\<close> for positive \<open>n\<close>: the whole list when it is shorter than \<open>n\<close>.\<close>

definition last_n :: "nat \<Rightarrow> 'a list \<Rightarrow> 'a list" where
  "last_n n xs = drop (length xs - n) xs"

text \<open>
  \<open>ConversationManager.add_exchange\<close>. The reading of the clock,
  \<open>datetime.now().isoformat()\<close>, is the argument \<open>now\<close>.
\<close>

definition add_exchange ::
  "ConversationManager \<Rightarrow> string \<Rightarrow> string \<Rightarrow> string \<Rightarrow> ConversationManager" where
  "add_exchange cm now user_input assistant_response =
     (let exchange = \<lparr>timestamp = now, user = user_input, assistant = assistant_response\<rparr>;
          appended = conversation_history cm @ [exchange]
      in if length appended > 50
         then cm\<lparr>conversation_history := last_n 50 appended\<rparr>
         else cm\<lparr>conversation_history := appended\<rparr>)"

definition not_initialized_message :: string where
  "not_initialized_message = ''I'm not properly initialized yet. Please check the configuration.''"

definition stub_response :: "string \<Rightarrow> string" where
  "stub_response user_input =
     ''I understand you said: '' @ [CHR 0x27] @ user_input @ [CHR 0x27]
       @ ''. I'm still learning how to help you better!''"

text \<open>
  \<open>ConversationManager.get_response\<close>. Nothing in the body of its \<open>try\<close> can raise on a
  string input, so the \<open>except\<close> branch has no counterpart here. The context is accepted
  and not read, as in the source.
\<close>

definition get_response ::
  "ConversationManager \<Rightarrow> string \<Rightarrow> string \<Rightarrow> 'a pydict \<Rightarrow> string \<times> ConversationManager" where
  "get_response cm now user_input context =
     (if \<not> initialized cm then (not_initialized_message, cm)
      else let response = stub_response user_input
           in (response, add_exchange cm now user_input response))"

definition reset :: "ConversationManager \<Rightarrow> ConversationManager" where
  "reset cm = cm\<lparr>conversation_history := []\<rparr>"

definition is_active :: "ConversationManager \<Rightarrow> bool" where
  "is_active cm = (length (conversation_history cm) > 0)"

definition get_last_interaction_time :: "ConversationManager \<Rightarrow> string option" where
  "get_last_interaction_time cm =
     (if conversation_history cm \<noteq> [] then Some (timestamp (last (conversation_history cm)))
      else None)"


section \<open>Plugins (\<open>src/core/plugin_base.py\<close>)\<close>

text \<open>
  A plugin object: the \<open>enabled\<close> attribute set by \<open>BasePlugin.__init__\<close>, the other
  attributes the instance owns, and its two abstract methods. A method receives \<open>self\<close>,
  so it is a function of both the \<open>enabled\<close> attribute and the other attributes. It
  either returns or raises; \<open>execute\<close> may assign to the attributes before it does
  either, while \<open>can_handle\<close> only reads them.
\<close>

record ('s, 'a) plugin =
  enabled :: bool
  pstate :: 's
  can_handle :: "bool \<Rightarrow> 's \<Rightarrow> string \<Rightarrow> py_exception + bool"
  execute :: "bool \<Rightarrow> 's \<Rightarrow> string \<Rightarrow> 'a pydict \<Rightarrow> (bool \<times> 's) \<times> (py_exception + string)"

definition is_enabled :: "('s, 'a) plugin \<Rightarrow> bool" where
  "is_enabled p = enabled p"

text \<open>The method calls \<open>plugin.can_handle(user_input)\<close> and \<open>plugin.execute(user_input, context)\<close>.\<close>

definition call_can_handle :: "('s, 'a) plugin \<Rightarrow> string \<Rightarrow> py_exception + bool" where
  "call_can_handle p user_input = can_handle p (enabled p) (pstate p) user_input"

definition call_execute ::
  "('s, 'a) plugin \<Rightarrow> string \<Rightarrow> 'a pydict \<Rightarrow> ('s, 'a) plugin \<times> (py_exception + string)" where
  "call_execute p user_input context =
     (case execute p (enabled p) (pstate p) user_input context of
        ((enabled', s'), r) \<Rightarrow> (p\<lparr>enabled := enabled', pstate := s'\<rparr>, r))"

section \<open>Plugin manager (\<open>src/core/plugin_manager.py\<close>)\<close>

type_synonym ('s, 'a) registry = "(string \<times> ('s, 'a) plugin) list"

record ('s, 'a) PluginManager =
  config_plugins :: "(string \<times> 'a pydict) list"
  plugins :: "('s, 'a) registry"

definition PluginManager_init :: "(string \<times> 'a pydict) list \<Rightarrow> ('s, 'a) PluginManager" where
  "PluginManager_init cfg = \<lparr>config_plugins = cfg, plugins = []\<rparr>"

text \<open>
  What the file system and the import machinery give the loader for one file of the
  plugin directory: its name, its stem, and the outcome of importing it, which is an
  exception or the plugin classes defined in the module, in the order
  \<open>inspect.getmembers\<close> lists them. A class is its constructor, from the plugin's
  configuration to a new instance or an exception.
\<close>

record ('s, 'a) plugin_file =
  file_name :: string
  file_stem :: string
  import_module :: "exn + ('a pydict \<Rightarrow> exn + ('s, 'a) plugin) list"

definition load_failure :: "('s, 'a) plugin_file \<Rightarrow> exn \<Rightarrow> exn" where
  "load_failure f e =
     PluginError (''Failed to load plugin from src/plugins/'' @ file_name f @ '': '' @ str_exn e)"

text \<open>\<open>self.config.plugins.get(plugin_file.stem, {})\<close>\<close>

definition plugin_config :: "(string \<times> 'a pydict) list \<Rightarrow> string \<Rightarrow> 'a pydict" where
  "plugin_config cfg stem = (case map_of cfg stem of None \<Rightarrow> [] | Some d \<Rightarrow> d)"

text \<open>
  The \<open>for name, obj in inspect.getmembers(...)\<close> loop of \<open>_load_plugin_from_file\<close>:
  every class is instantiated and stored under the file's stem. A constructor that
  raises ends the loop; what was stored before stays stored.
\<close>

fun load_classes ::
  "('s, 'a) registry \<Rightarrow> string \<Rightarrow> 'a pydict \<Rightarrow> ('a pydict \<Rightarrow> exn + ('s, 'a) plugin) list
     \<Rightarrow> ('s, 'a) registry \<times> exn option" where
  "load_classes ps stem cfg [] = (ps, None)"
| "load_classes ps stem cfg (obj # objs) =
     (case obj cfg of
        Inl e \<Rightarrow> (ps, Some e)
      | Inr plugin_instance \<Rightarrow> load_classes (AList.update stem plugin_instance ps) stem cfg objs)"

text \<open>
  \<open>PluginManager._load_plugin_from_file\<close>: the manager afterwards, and the
  \<open>PluginError\<close> raised, if any.
\<close>

definition load_plugin_from_file ::
  "('s, 'a) PluginManager \<Rightarrow> ('s, 'a) plugin_file \<Rightarrow> ('s, 'a) PluginManager \<times> exn option" where
  "load_plugin_from_file pm f =
     (case import_module f of
        Inl e \<Rightarrow> (pm, Some (load_failure f e))
      | Inr classes \<Rightarrow>
          (case load_classes (plugins pm) (file_stem f)
                  (plugin_config (config_plugins pm) (file_stem f)) classes of
             (ps, None) \<Rightarrow> (pm\<lparr>plugins := ps\<rparr>, None)
           | (ps, Some e) \<Rightarrow> (pm\<lparr>plugins := ps\<rparr>, Some (load_failure f e))))"

text \<open>
  \<open>PluginManager.load_plugins\<close> over the files \<open>glob("*.py")\<close> yields, in its order.
  The directory is \<open>None\<close> when it does not exist. An exception of
  \<open>_load_plugin_from_file\<close> is logged and dropped.
\<close>

fun load_files ::
  "('s, 'a) PluginManager \<Rightarrow> ('s, 'a) plugin_file list \<Rightarrow> ('s, 'a) PluginManager" where
  "load_files pm [] = pm"
| "load_files pm (f # fs) =
     (if take 2 (file_name f) = ''__'' then load_files pm fs
      else load_files (fst (load_plugin_from_file pm f)) fs)"

definition load_plugins ::
  "('s, 'a) PluginManager \<Rightarrow> ('s, 'a) plugin_file list option \<Rightarrow> ('s, 'a) PluginManager" where
  "load_plugins pm directory =
     (case directory of None \<Rightarrow> pm | Some files \<Rightarrow> load_files pm files)"

definition not_found :: "string \<Rightarrow> exn" where
  "not_found name = PluginError (''Plugin '' @ [CHR 0x27] @ name @ [CHR 0x27] @ '' not found'')"

text \<open>\<open>PluginManager.get_plugin\<close>, with the manager it leaves behind.\<close>

definition get_plugin ::
  "('s, 'a) PluginManager \<Rightarrow> string \<Rightarrow> ('s, 'a) PluginManager \<times> (exn + ('s, 'a) plugin)" where
  "get_plugin pm name =
     (case map_of (plugins pm) name of
        None \<Rightarrow> (pm, Inl (not_found name))
      | Some p \<Rightarrow> (pm, Inr p))"

definition list_plugins :: "('s, 'a) PluginManager \<Rightarrow> string list" where
  "list_plugins pm = map fst (plugins pm)"

section \<open>The assistant (\<open>src/core/assistant.py\<close>)\<close>

record ('s, 'a) PersonalAssistant =
  plugin_manager :: "('s, 'a) PluginManager"
  conversation_manager :: ConversationManager

text \<open>\<open>PersonalAssistant.__init__\<close> with \<open>_initialize\<close>: load the plugins, initialize the conversation.\<close>

definition PersonalAssistant_init ::
  "(string \<times> 'a pydict) list \<Rightarrow> ('s, 'a) plugin_file list option \<Rightarrow> ('s, 'a) PersonalAssistant" where
  "PersonalAssistant_init cfg directory =
     \<lparr>plugin_manager = load_plugins (PluginManager_init cfg) directory,
      conversation_manager = initialize ConversationManager_init\<rparr>"

text \<open>
  The dictionary display \<open>{"timestamp": ..., "user_input": ..., **(context or {})}\<close>:
  the two entries first, then every entry of the caller's context assigned in its order.
  \<open>context or {}\<close> is the empty dictionary for \<open>None\<close> and the context itself
  otherwise.
\<close>

definition context_or_empty :: "'a pydict option \<Rightarrow> 'a pydict" where
  "context_or_empty context = (case context of None \<Rightarrow> [] | Some c \<Rightarrow> c)"

definition enhanced_context :: "string \<Rightarrow> string \<Rightarrow> 'a pydict option \<Rightarrow> 'a pydict" where
  "enhanced_context now user_input context =
     fold (\<lambda>(k, v). AList.update k v) (context_or_empty context)
       [(''timestamp'', PyStr now), (''user_input'', PyStr user_input)]"

text \<open>
  The \<open>for plugin in self.plugin_manager.plugins.values()\<close> loop of \<open>process_input\<close>, up
  to the call of \<open>execute\<close>. It gives the registry afterwards and how the loop ended:
  an exception raised by \<open>can_handle\<close> or \<open>execute\<close>, the response of the plugin that
  was executed, or \<open>None\<close> when the loop ran to its end.
\<close>

fun process_input_loop ::
  "('s, 'a) registry \<Rightarrow> string \<Rightarrow> 'a pydict
     \<Rightarrow> ('s, 'a) registry \<times> (py_exception + string option)" where
  "process_input_loop [] user_input context = ([], Inr None)"
| "process_input_loop ((name, plugin) # rest) user_input context =
     (case call_can_handle plugin user_input of
        Inl e \<Rightarrow> ((name, plugin) # rest, Inl e)
      | Inr True \<Rightarrow>
          (case call_execute plugin user_input context of
             (plugin', Inl e) \<Rightarrow> ((name, plugin') # rest, Inl e)
           | (plugin', Inr response) \<Rightarrow> ((name, plugin') # rest, Inr (Some response)))
      | Inr False \<Rightarrow>
          (case process_input_loop rest user_input context of
             (rest', r) \<Rightarrow> ((name, plugin) # rest', r)))"

definition error_message :: "string \<Rightarrow> string" where
  "error_message m = ''I'm sorry, I encountered an error: '' @ m"

text \<open>
  The clause \<open>except Exception as e\<close> of \<open>process_input\<close>, for an exception raised in the
  \<open>try\<close> block: what \<open>process_input\<close> then returns, or the exception that leaves it. An
  exception that is not an instance of \<open>Exception\<close> is not caught. For one that is, the
  handler formats \<open>str(e)\<close> into the log line and into the returned string; when
  \<open>str(e)\<close> raises, that exception leaves the handler.
\<close>

definition except_Exception :: "py_exception \<Rightarrow> py_exception + string" where
  "except_Exception e =
     (if is_Exception e
      then (case str_of e of Inl e' \<Rightarrow> Inl e' | Inr m \<Rightarrow> Inr (error_message m))
      else Inl e)"

text \<open>
  \<open>PersonalAssistant.process_input\<close>: the string it returns or the exception that
  propagates to its caller, and the assistant afterwards. \<open>now_context\<close> is the clock
  reading taken for the context, \<open>now_exchange\<close> the one \<open>add_exchange\<close> takes when it is
  reached. On arguments of the declared types nothing but the plugin methods can raise
  in the \<open>try\<close> block.
\<close>

definition process_input ::
  "('s, 'a) PersonalAssistant \<Rightarrow> string \<Rightarrow> string \<Rightarrow> string \<Rightarrow> 'a pydict option
     \<Rightarrow> (py_exception + string) \<times> ('s, 'a) PersonalAssistant" where
  "process_input a now_context now_exchange user_input context =
     (let context' = enhanced_context now_context user_input context;
          pm = plugin_manager a;
          cm = conversation_manager a
      in case process_input_loop (plugins pm) user_input context' of
           (ps, Inl e) \<Rightarrow> (except_Exception e, a\<lparr>plugin_manager := pm\<lparr>plugins := ps\<rparr>\<rparr>)
         | (ps, Inr (Some response)) \<Rightarrow>
             (Inr response,
              a\<lparr>plugin_manager := pm\<lparr>plugins := ps\<rparr>,
                conversation_manager := add_exchange cm now_exchange user_input response\<rparr>)
         | (ps, Inr None) \<Rightarrow>
             (case get_response cm now_exchange user_input context' of
                (response, cm') \<Rightarrow>
                  (Inr response,
                   a\<lparr>plugin_manager := pm\<lparr>plugins := ps\<rparr>, conversation_manager := cm'\<rparr>)))"

definition reset_conversation :: "('s, 'a) PersonalAssistant \<Rightarrow> ('s, 'a) PersonalAssistant" where
  "reset_conversation a = a\<lparr>conversation_manager := reset (conversation_manager a)\<rparr>"

text \<open>
  A caller making one \<open>process_input\<close> call after another: each call is given with its
  two clock readings, and the responses come back in order with the assistant as the
  last call left it. An exception that propagates from a call ends the sequence.
\<close>

fun process_all ::
  "('s, 'a) PersonalAssistant \<Rightarrow> (string \<times> string \<times> string \<times> 'a pydict option) list
     \<Rightarrow> py_exception + string list \<times> ('s, 'a) PersonalAssistant" where
  "process_all a [] = Inr ([], a)"
| "process_all a ((now_context, now_exchange, user_input, context) # calls) =
     (case process_input a now_context now_exchange user_input context of
        (Inl e, a') \<Rightarrow> Inl e
      | (Inr response, a') \<Rightarrow>
          (case process_all a' calls of
             Inl e \<Rightarrow> Inl e
           | Inr (responses, a'') \<Rightarrow> Inr (response # responses, a'')))"

section \<open>Sequences of calls\<close>

text \<open>
  A call has faulted when its routing loop ended with an exception, caught by the
  \<open>except\<close> clause of \<open>process_input\<close> or not; a sequence of calls succeeds when none of
  them faults, each call running on the assistant the one before left.
\<close>

definition faulted ::
  "('s, 'a) PersonalAssistant \<Rightarrow> string \<Rightarrow> string \<Rightarrow> 'a pydict option \<Rightarrow> bool" where
  "faulted a now_context user_input context =
     (case snd (process_input_loop (plugins (plugin_manager a)) user_input
                  (enhanced_context now_context user_input context)) of
        Inl e \<Rightarrow> True
      | Inr r \<Rightarrow> False)"

fun all_succeed ::
  "('s, 'a) PersonalAssistant \<Rightarrow> (string \<times> string \<times> string \<times> 'a pydict option) list \<Rightarrow> bool" where
  "all_succeed a [] = True"
| "all_succeed a ((now_context, now_exchange, user_input, context) # calls) =
     (\<not> faulted a now_context user_input context
      \<and> all_succeed (snd (process_input a now_context now_exchange user_input context)) calls)"

definition exchanges_of ::
  "(string \<times> string \<times> string \<times> 'a pydict option) list \<Rightarrow> string list \<Rightarrow> exchange list" where
  "exchanges_of calls responses =
     map (\<lambda>((now_context, now_exchange, user_input, context), response).
            \<lparr>timestamp = now_exchange, user = user_input, assistant = response\<rparr>)
       (zip calls responses)"

section \<open>Example plugins, files and assistants\<close>

text \<open>
  A plugin that claims exactly one input, answers it with a fixed reply and counts in its
  state how often \<open>execute\<close> was called; one whose \<open>execute\<close> raises a given exception
  after counting; and one that claims every input and answers with the \<open>timestamp\<close>
  entry of the context it was given. None of them reads or assigns its \<open>enabled\<close>
  attribute.
\<close>

definition fixture_plugin :: "bool \<Rightarrow> string \<Rightarrow> string \<Rightarrow> (nat, unit) plugin" where
  "fixture_plugin en keyword reply =
     \<lparr>enabled = en, pstate = 0,
      can_handle = (\<lambda>flag calls user_input. Inr (user_input = keyword)),
      execute = (\<lambda>flag calls user_input context. ((flag, Suc calls), Inr reply))\<rparr>"

definition raising_plugin :: "string \<Rightarrow> py_exception \<Rightarrow> (nat, unit) plugin" where
  "raising_plugin keyword e =
     \<lparr>enabled = True, pstate = 0,
      can_handle = (\<lambda>flag calls user_input. Inr (user_input = keyword)),
      execute = (\<lambda>flag calls user_input context. ((flag, Suc calls), Inl e))\<rparr>"

definition timestamp_plugin :: "(nat, unit) plugin" where
  "timestamp_plugin =
     \<lparr>enabled = True, pstate = 0,
      can_handle = (\<lambda>flag calls user_input. Inr True),
      execute = (\<lambda>flag calls user_input context.
         ((flag, Suc calls),
          case map_of context ''timestamp'' of
            Some (PyStr t) \<Rightarrow> Inr t
          | _ \<Rightarrow> Inl (Raised True (Inr ''timestamp''))))\<rparr>"

text \<open>
  The exceptions of the examples: an \<open>Exception\<close> with a message, a \<open>KeyboardInterrupt\<close>,
  which is no instance of \<open>Exception\<close>, and an \<open>Exception\<close> whose \<open>__str__\<close> raises.
\<close>

definition disk_full :: py_exception where
  "disk_full = Raised True (Inr ''disk full'')"

definition keyboard_interrupt :: py_exception where
  "keyboard_interrupt = Raised False (Inr [])"

definition unprintable :: py_exception where
  "unprintable = Raised True (Inl (Raised True (Inr ''no message'')))"

definition fixture_assistant :: "(nat, unit) registry \<Rightarrow> (nat, unit) PersonalAssistant" where
  "fixture_assistant ps =
     \<lparr>plugin_manager = \<lparr>config_plugins = [], plugins = ps\<rparr>,
      conversation_manager = initialize ConversationManager_init\<rparr>"

text \<open>
  Per registered plugin: its name, whether it is enabled, and its state, which for the
  example plugins is the number of \<open>execute\<close> calls made on it.
\<close>

definition executions :: "('s, 'a) PersonalAssistant \<Rightarrow> (string \<times> bool \<times> 's) list" where
  "executions a = map (\<lambda>(name, p). (name, is_enabled p, pstate p)) (plugins (plugin_manager a))"

text \<open>
  A plugin module that defines two plugin classes, so that both instances are stored
  under the one stem of the file; and, per name of a registry, the reply the plugin
  stored there gives.
\<close>

definition fixture_class :: "string \<Rightarrow> unit pydict \<Rightarrow> exn + (nat, unit) plugin" where
  "fixture_class reply config = Inr (fixture_plugin True ''remind me'' reply)"

definition two_class_file :: "(nat, unit) plugin_file" where
  "two_class_file =
     \<lparr>file_name = ''reminders.py'', file_stem = ''reminders'',
      import_module = Inr [fixture_class ''from first class'', fixture_class ''from second class'']\<rparr>"

definition registry_replies :: "(nat, unit) PluginManager \<Rightarrow> (string \<times> string) list" where
  "registry_replies pm =
     map (\<lambda>(name, p). (name, case snd (call_execute p ''remind me'' []) of
                                 Inl e \<Rightarrow> ''raised'' | Inr r \<Rightarrow> r)) (plugins pm)"

text \<open>
  An assistant whose history already holds 49 exchanges, and three calls made on it: the
  first and third are claimed by the plugin, the second falls back.
\<close>

definition earlier_exchange :: exchange where
  "earlier_exchange = \<lparr>timestamp = ''t0'', user = ''hi'', assistant = ''ho''\<rparr>"

definition busy_assistant :: "(nat, unit) PersonalAssistant" where
  "busy_assistant =
     \<lparr>plugin_manager =
        \<lparr>config_plugins = [], plugins = [(''tasks'', fixture_plugin True ''remind me'' ''noted'')]\<rparr>,
      conversation_manager =
        \<lparr>conversation_history = replicate 49 earlier_exchange, initialized = True\<rparr>\<rparr>"

definition three_calls :: "(string \<times> string \<times> string \<times> unit pydict option) list" where
  "three_calls =
     [(''t1'', ''t2'', ''remind me'', None),
      (''t3'', ''t4'', ''hello'', None),
      (''t5'', ''t6'', ''remind me'', Some [(''mood'', PyOther ())])]"

section \<open>Properties of the conversation state\<close>

lemma length_last_n: "length (last_n n xs) = min n (length xs)"
  by (simp add: last_n_def)

lemma last_n_rev: "last_n n xs = rev (take n (rev xs))"
  by (simp add: last_n_def take_rev)

lemma last_n_append_last_n_gen: "last_n n (last_n n xs @ ys) = last_n n (xs @ ys)"
  by (simp add: last_n_rev min_def)

lemma history_add_exchange:
  "conversation_history (add_exchange cm now u r)
     = last_n 50 (conversation_history cm @ [\<lparr>timestamp = now, user = u, assistant = r\<rparr>])"
  by (simp add: add_exchange_def Let_def last_n_def)

lemma initialized_add_exchange: "initialized (add_exchange cm now u r) = initialized cm"
  by (simp add: add_exchange_def Let_def)

lemma length_add_exchange: "length (conversation_history (add_exchange cm now u r)) \<le> 50"
  by (simp add: history_add_exchange length_last_n)

text \<open>
  Claim C10. On a conversation manager on which \<open>initialize\<close> was never called,
  \<open>get_response\<close> returns the fixed not-initialized message for every input and
  context and leaves the manager, hence its history, as it was. This holds of the
  manager as constructed and of any manager whose flag is unset.
\<close>

theorem get_response_uninitialized:
  "get_response ConversationManager_init now user_input context
     = (''I'm not properly initialized yet. Please check the configuration.'',
        ConversationManager_init)
   \<and> (\<not> initialized cm \<longrightarrow>
        fst (get_response cm now user_input context)
          = ''I'm not properly initialized yet. Please check the configuration.''
        \<and> snd (get_response cm now user_input context) = cm)"
  by (simp add: get_response_def ConversationManager_init_def not_initialized_message_def)

text \<open>
  An uninitialized manager that already holds an exchange keeps exactly that exchange.
\<close>

theorem get_response_uninitialized_witness:
  "\<not> initialized \<lparr>conversation_history = [\<lparr>timestamp = ''t0'', user = ''hi'', assistant = ''ho''\<rparr>],
                    initialized = False\<rparr>
   \<and> get_response \<lparr>conversation_history = [\<lparr>timestamp = ''t0'', user = ''hi'', assistant = ''ho''\<rparr>],
                    initialized = False\<rparr> ''t1'' ''what is the weather'' ([] :: unit pydict)
     = (''I'm not properly initialized yet. Please check the configuration.'',
        \<lparr>conversation_history = [\<lparr>timestamp = ''t0'', user = ''hi'', assistant = ''ho''\<rparr>],
         initialized = False\<rparr>)"
  using get_response_uninitialized
    [of "''t1''" "''what is the weather''" "[] :: unit pydict"
        "\<lparr>conversation_history = [\<lparr>timestamp = ''t0'', user = ''hi'', assistant = ''ho''\<rparr>],
          initialized = False\<rparr>"]
  by (simp add: prod_eq_iff)

text \<open>
  Claim C9. \<open>reset\<close> is idempotent, and after it (also through the assistant's
  \<open>reset_conversation\<close>) the history is empty, \<open>is_active\<close> is false and
  \<open>get_last_interaction_time\<close> is \<open>None\<close>.
\<close>

theorem reset_idempotent:
  "reset (reset cm) = reset cm
   \<and> conversation_history (reset cm) = []
   \<and> is_active (reset cm) = False
   \<and> get_last_interaction_time (reset cm) = None
   \<and> is_active (conversation_manager (reset_conversation a)) = False
   \<and> get_last_interaction_time (conversation_manager (reset_conversation a)) = None
   \<and> reset_conversation (reset_conversation a) = reset_conversation a"
  by (simp add: reset_def is_active_def get_last_interaction_time_def reset_conversation_def)

section \<open>Properties of the registry\<close>

text \<open>
  Claim C8. \<open>get_plugin\<close> leaves the manager as it was; it returns the plugin stored
  under the name when the name is a key of the registry, and raises the \<open>PluginError\<close>
  with the not-found message otherwise. It raises exactly when the name is not among
  \<open>list_plugins\<close>, and returns a registered plugin exactly when it is.
\<close>

theorem get_plugin_found_or_not_found:
  "fst (get_plugin pm name) = pm
   \<and> (case map_of (plugins pm) name of
         Some p \<Rightarrow> snd (get_plugin pm name) = Inr p
       | None \<Rightarrow> snd (get_plugin pm name)
           = Inl (PluginError (''Plugin '' @ [CHR 0x27] @ name @ [CHR 0x27] @ '' not found'')))
   \<and> ((\<exists>e. snd (get_plugin pm name) = Inl e) \<longleftrightarrow> name \<notin> set (list_plugins pm))
   \<and> ((\<exists>p. snd (get_plugin pm name) = Inr p \<and> (name, p) \<in> set (plugins pm))
         \<longleftrightarrow> name \<in> set (list_plugins pm))"
proof (cases "map_of (plugins pm) name")
  case None
  then have "name \<notin> fst ` set (plugins pm)"
    by (simp add: map_of_eq_None_iff)
  with None show ?thesis
    by (simp add: get_plugin_def not_found_def list_plugins_def)
next
  case (Some p)
  then have "(name, p) \<in> set (plugins pm)"
    by (rule map_of_SomeD)
  moreover from this have "name \<in> fst ` set (plugins pm)"
    by force
  ultimately show ?thesis
    using Some by (simp add: get_plugin_def list_plugins_def)
qed

text \<open>
  Looking up the registered name and an unregistered one.
\<close>

theorem get_plugin_found_or_not_found_witness:
  "snd (get_plugin \<lparr>config_plugins = [], plugins = [(''task_plugin'', fixture_plugin True ''remind me'' ''noted'')]\<rparr>
          ''task_plugin'') = Inr (fixture_plugin True ''remind me'' ''noted'')
   \<and> snd (get_plugin \<lparr>config_plugins = [], plugins = [(''task_plugin'', fixture_plugin True ''remind me'' ''noted'')]\<rparr>
          ''weather'') = Inl (PluginError ''Plugin 'weather' not found'')"
  using get_plugin_found_or_not_found
    [of "\<lparr>config_plugins = [], plugins = [(''task_plugin'', fixture_plugin True ''remind me'' ''noted'')]\<rparr>"
        "''task_plugin''"]
    get_plugin_found_or_not_found
    [of "\<lparr>config_plugins = [], plugins = [(''task_plugin'', fixture_plugin True ''remind me'' ''noted'')]\<rparr>"
        "''weather''"]
  by simp

lemma plugins_load_plugin_from_file:
  "plugins (fst (load_plugin_from_file pm f))
     = (case import_module f of
          Inl e \<Rightarrow> plugins pm
        | Inr classes \<Rightarrow>
            fst (load_classes (plugins pm) (file_stem f)
                   (plugin_config (config_plugins pm) (file_stem f)) classes))"
  by (simp add: load_plugin_from_file_def split: sum.splits prod.splits option.splits)

lemma distinct_load_classes:
  "distinct (map fst ps) \<Longrightarrow> distinct (map fst (fst (load_classes ps stem cfg classes)))"
  by (induction classes arbitrary: ps) (auto simp: distinct_update split: sum.splits)

lemma distinct_load_plugin_from_file:
  "distinct (map fst (plugins pm)) \<Longrightarrow>
     distinct (map fst (plugins (fst (load_plugin_from_file pm f))))"
  by (simp add: plugins_load_plugin_from_file distinct_load_classes split: sum.splits)

lemma distinct_load_files:
  "distinct (map fst (plugins pm)) \<Longrightarrow> distinct (map fst (plugins (load_files pm files)))"
  by (induction files arbitrary: pm) (simp_all add: distinct_load_plugin_from_file)

lemma load_classes_no_error:
  "snd (load_classes ps stem cfg classes) = None \<longleftrightarrow> (\<forall>c \<in> set classes. \<exists>p. c cfg = Inr p)"
  by (induction classes arbitrary: ps) (auto split: sum.splits)

lemma load_classes_last:
  assumes "\<forall>c \<in> set classes. \<exists>p. c cfg = Inr p" and "c cfg = Inr p"
  shows "map_of (fst (load_classes ps stem cfg (classes @ [c]))) stem = Some p"
  using assms
  by (induction classes arbitrary: ps) (auto simp: update_conv' split: sum.splits)

text \<open>
  Claim C7, as the loader behaves. The registry \<open>load_plugins\<close> builds from the empty
  one never holds a name twice, but not because a collision is rejected:
  \<open>_load_plugin_from_file\<close> raises exactly when the import or a constructor raises, so a
  second class registering under the stem of its file raises nothing, and the entry of
  the stem is then the instance of the last class of the file.
\<close>

theorem load_overwrites_without_error:
  "distinct (map fst (plugins (load_plugins (PluginManager_init cfg) directory)))
   \<and> (snd (load_plugin_from_file pm f) = None \<longleftrightarrow>
        (\<exists>classes. import_module f = Inr classes
           \<and> (\<forall>c \<in> set classes. \<exists>p. c (plugin_config (config_plugins pm) (file_stem f)) = Inr p)))
   \<and> (import_module f = Inr (classes @ [c])
        \<and> (\<forall>c' \<in> set classes. \<exists>p'. c' (plugin_config (config_plugins pm) (file_stem f)) = Inr p')
        \<and> c (plugin_config (config_plugins pm) (file_stem f)) = Inr p
      \<longrightarrow> map_of (plugins (fst (load_plugin_from_file pm f))) (file_stem f) = Some p)"
proof (intro conjI impI)
  show "distinct (map fst (plugins (load_plugins (PluginManager_init cfg) directory)))"
    by (cases directory) (simp_all add: load_plugins_def PluginManager_init_def distinct_load_files)
next
  show "snd (load_plugin_from_file pm f) = None \<longleftrightarrow>
        (\<exists>classes. import_module f = Inr classes
           \<and> (\<forall>c \<in> set classes. \<exists>p. c (plugin_config (config_plugins pm) (file_stem f)) = Inr p))"
  proof (cases "import_module f")
    case (Inl e)
    then show ?thesis by (simp add: load_plugin_from_file_def)
  next
    case (Inr classes)
    with load_classes_no_error
      [of "plugins pm" "file_stem f" "plugin_config (config_plugins pm) (file_stem f)" classes]
    show ?thesis
      by (auto simp: load_plugin_from_file_def split: prod.splits option.splits)
  qed
next
  assume a: "import_module f = Inr (classes @ [c])
        \<and> (\<forall>c' \<in> set classes. \<exists>p'. c' (plugin_config (config_plugins pm) (file_stem f)) = Inr p')
        \<and> c (plugin_config (config_plugins pm) (file_stem f)) = Inr p"
  then have "map_of (fst (load_classes (plugins pm) (file_stem f)
                (plugin_config (config_plugins pm) (file_stem f)) (classes @ [c]))) (file_stem f)
              = Some p"
    by (intro load_classes_last) simp_all
  with a show "map_of (plugins (fst (load_plugin_from_file pm f))) (file_stem f) = Some p"
    by (auto simp: load_plugin_from_file_def split: prod.splits option.splits)
qed

text \<open>
  The file with two plugin classes: both constructors return, nothing is raised, and the
  stem maps to the instance of the second class.
\<close>

theorem load_overwrites_without_error_witness:
  "import_module two_class_file = Inr ([fixture_class ''from first class''] @ [fixture_class ''from second class''])
   \<and> fixture_class ''from first class''
         (plugin_config (config_plugins (PluginManager_init [])) (file_stem two_class_file))
       = Inr (fixture_plugin True ''remind me'' ''from first class'')
   \<and> snd (load_plugin_from_file (PluginManager_init []) two_class_file) = None
   \<and> map_of (plugins (fst (load_plugin_from_file (PluginManager_init []) two_class_file))) ''reminders''
       = Some (fixture_plugin True ''remind me'' ''from second class'')
   \<and> distinct (map fst (plugins (load_plugins (PluginManager_init []) (Some [two_class_file]))))"
proof -
  have i: "import_module two_class_file
             = Inr ([fixture_class ''from first class''] @ [fixture_class ''from second class''])"
    by (simp add: two_class_file_def)
  have s: "file_stem two_class_file = ''reminders''"
    by (simp add: two_class_file_def)
  have c: "\<forall>c' \<in> set [fixture_class ''from first class''].
         \<exists>p'. c' (plugin_config (config_plugins (PluginManager_init [])) (file_stem two_class_file)) = Inr p'"
    by (simp add: fixture_class_def)
  have l: "fixture_class ''from second class''
             (plugin_config (config_plugins (PluginManager_init [])) (file_stem two_class_file))
           = Inr (fixture_plugin True ''remind me'' ''from second class'')"
    by (simp add: fixture_class_def)
  note t = load_overwrites_without_error
    [of "[]" "Some [two_class_file]" "PluginManager_init []" two_class_file
        "[fixture_class ''from first class'']" "fixture_class ''from second class''"
        "fixture_plugin True ''remind me'' ''from second class''"]
  from t have "distinct (map fst (plugins (load_plugins (PluginManager_init []) (Some [two_class_file]))))"
    by blast
  moreover from t i c l
  have "map_of (plugins (fst (load_plugin_from_file (PluginManager_init []) two_class_file)))
          (file_stem two_class_file) = Some (fixture_plugin True ''remind me'' ''from second class'')"
    by blast
  moreover from t i have "snd (load_plugin_from_file (PluginManager_init []) two_class_file) = None"
    by (simp add: fixture_class_def)
  moreover have "fixture_class ''from first class''
         (plugin_config (config_plugins (PluginManager_init [])) (file_stem two_class_file))
       = Inr (fixture_plugin True ''remind me'' ''from first class'')"
    by (simp add: fixture_class_def)
  ultimately show ?thesis
    using i s by simp
qed

text \<open>
  Against claim C7 as stated: two plugin classes of one file register under the same
  name, loading the file raises nothing, and the registry that \<open>load_plugins\<close> returns
  holds the second instance alone.
\<close>

theorem collision_overwritten_counterexample:
  "snd (load_plugin_from_file (PluginManager_init []) two_class_file) = None
   \<and> registry_replies (fst (load_plugin_from_file (PluginManager_init []) two_class_file))
       = [(''reminders'', ''from second class'')]
   \<and> registry_replies (load_plugins (PluginManager_init []) (Some [two_class_file]))
       = [(''reminders'', ''from second class'')]"
  by (simp add: load_plugin_from_file_def load_plugins_def PluginManager_init_def
        two_class_file_def fixture_class_def plugin_config_def registry_replies_def
        fixture_plugin_def call_execute_def)

section \<open>The routing loop\<close>

text \<open>
  How the routing loop ends: at the first plugin whose \<open>can_handle\<close> does not return
  false, by executing it or with the exception of its \<open>can_handle\<close>; or at the end of
  the registry. The registry is changed at the executed plugin only.
\<close>

lemma loop_first_match:
  assumes "\<forall>(m, q) \<in> set pre. call_can_handle q ui = Inr False"
    and "call_can_handle p ui = Inr True"
  shows "process_input_loop (pre @ (n, p) # post) ui ctx
           = (pre @ (n, fst (call_execute p ui ctx)) # post,
              map_sum id Some (snd (call_execute p ui ctx)))"
  using assms
  by (induction pre) (auto split: prod.splits sum.splits)

lemma loop_no_match:
  assumes "\<forall>(m, q) \<in> set ps. call_can_handle q ui = Inr False"
  shows "process_input_loop ps ui ctx = (ps, Inr None)"
  using assms by (induction ps) auto

lemma loop_can_handle_raises:
  assumes "\<forall>(m, q) \<in> set pre. call_can_handle q ui = Inr False"
    and "call_can_handle p ui = Inl e"
  shows "process_input_loop (pre @ (n, p) # post) ui ctx = (pre @ (n, p) # post, Inl e)"
  using assms by (induction pre) auto

text \<open>
  The loop ends with an exception exactly when the first plugin whose \<open>can_handle\<close>
  does not return false raises, from \<open>can_handle\<close> or from \<open>execute\<close>.
\<close>

lemma loop_raises_intro:
  assumes "\<forall>(m, q) \<in> set pre. call_can_handle q ui = Inr False"
    and "call_can_handle p ui = Inl e
           \<or> call_can_handle p ui = Inr True \<and> snd (call_execute p ui ctx) = Inl e"
  shows "snd (process_input_loop (pre @ (n, p) # post) ui ctx) = Inl e"
  using assms by (auto simp: loop_can_handle_raises loop_first_match)

lemma loop_raises_elim:
  "snd (process_input_loop ps ui ctx) = Inl e \<Longrightarrow>
     \<exists>pre n p post. ps = pre @ (n, p) # post
        \<and> (\<forall>(m, q) \<in> set pre. call_can_handle q ui = Inr False)
        \<and> (call_can_handle p ui = Inl e
             \<or> call_can_handle p ui = Inr True \<and> snd (call_execute p ui ctx) = Inl e)"
proof (induction ps)
  case Nil
  then show ?case by simp
next
  case (Cons np ps)
  obtain n0 p0 where np: "np = (n0, p0)" by (cases np)
  show ?case
  proof (cases "call_can_handle p0 ui = Inr False")
    case True
    with Cons.prems np have "snd (process_input_loop ps ui ctx) = Inl e"
      by (simp split: prod.splits)
    from Cons.IH [OF this] obtain pre n p post where *: "ps = pre @ (n, p) # post"
      "\<forall>(m, q) \<in> set pre. call_can_handle q ui = Inr False"
      "call_can_handle p ui = Inl e
         \<or> call_can_handle p ui = Inr True \<and> snd (call_execute p ui ctx) = Inl e"
      by blast
    from * True np show ?thesis
      by (intro exI [of _ "np # pre"] exI [of _ n] exI [of _ p] exI [of _ post]) simp
  next
    case False
    with Cons.prems np
    have "call_can_handle p0 ui = Inl e
            \<or> call_can_handle p0 ui = Inr True \<and> snd (call_execute p0 ui ctx) = Inl e"
      by (auto split: sum.splits bool.splits prod.splits)
    with np show ?thesis
      by (intro exI [of _ "[]"] exI [of _ n0] exI [of _ p0] exI [of _ ps]) simp
  qed
qed

text \<open>
  A call whose first claimant is \<open>p\<close>: the call is the \<open>execute\<close> of \<open>p\<close> on the enhanced
  context, followed by the recording of the exchange when \<open>execute\<close> returns and by the
  \<open>except\<close> clause when it raises.
\<close>

lemma process_input_first_claimant:
  assumes "plugins (plugin_manager a) = pre @ (name, p) # post"
    and "\<forall>(m, q) \<in> set pre. call_can_handle q ui = Inr False"
    and "call_can_handle p ui = Inr True"
  shows "process_input a t1 t2 ui ctx
           = (case call_execute p ui (enhanced_context t1 ui ctx) of
                (p', Inl e) \<Rightarrow>
                  (except_Exception e,
                   a\<lparr>plugin_manager := (plugin_manager a)\<lparr>plugins := pre @ (name, p') # post\<rparr>\<rparr>)
              | (p', Inr response) \<Rightarrow>
                  (Inr response,
                   a\<lparr>plugin_manager := (plugin_manager a)\<lparr>plugins := pre @ (name, p') # post\<rparr>,
                     conversation_manager :=
                       add_exchange (conversation_manager a) t2 ui response\<rparr>))"
  using assms
  by (simp add: process_input_def Let_def loop_first_match split: prod.splits sum.splits)

lemma process_input_no_claimant:
  assumes "\<forall>(m, q) \<in> set (plugins (plugin_manager a)). call_can_handle q ui = Inr False"
  shows "process_input a t1 t2 ui ctx
           = (Inr (fst (get_response (conversation_manager a) t2 ui (enhanced_context t1 ui ctx))),
              a\<lparr>conversation_manager :=
                  snd (get_response (conversation_manager a) t2 ui (enhanced_context t1 ui ctx))\<rparr>)"
  using assms
  by (simp add: process_input_def Let_def loop_no_match split: prod.splits)

section \<open>The context dictionary\<close>

text \<open>
  Assigning the entries of a dictionary one after the other is the map overridden by
  that dictionary.
\<close>

lemma map_of_fold_update:
  "distinct (map fst c) \<Longrightarrow>
     map_of (fold (\<lambda>(k, v). AList.update k v) c d) = map_of d ++ map_of c"
proof (induction c arbitrary: d)
  case Nil
  then show ?case by simp
next
  case (Cons kv c)
  obtain k v where kv: "kv = (k, v)" by (cases kv)
  from Cons.prems kv have "map_of c k = None"
    by (simp add: map_of_eq_None_iff)
  then have swap: "(map_of d)(k \<mapsto> v) ++ map_of c = map_of d ++ (map_of c)(k \<mapsto> v)"
    by (auto simp: map_add_def fun_eq_iff split: option.splits)
  have "map_of (fold (\<lambda>(k, v). AList.update k v) (kv # c) d)
          = map_of (AList.update k v d) ++ map_of c"
    using Cons.IH [of "AList.update k v d"] Cons.prems kv by simp
  also have "\<dots> = (map_of d)(k \<mapsto> v) ++ map_of c"
    by (simp only: update_conv')
  also have "\<dots> = map_of d ++ (map_of c)(k \<mapsto> v)"
    by (fact swap)
  also have "\<dots> = map_of d ++ map_of (kv # c)"
    using kv by simp
  finally show ?case .
qed

text \<open>
  Claim C3, as the context is built. The caller's context is a dictionary, so its keys
  are distinct. The context is the dictionary of \<open>timestamp\<close> and \<open>user_input\<close> overridden
  by every entry of the caller's context: a key the caller supplies carries the caller's
  value, also under the names \<open>timestamp\<close> and \<open>user_input\<close>, and these two carry the
  assistant's own values only where the caller supplies none. This dictionary is what
  the selected plugin's \<open>execute\<close> receives: the call is the \<open>execute\<close> of the first
  claimant on it, with the exchange recorded when \<open>execute\<close> returns and the \<open>except\<close>
  clause applied when it raises. It is also what \<open>get_response\<close> receives when no plugin
  claims the input.
\<close>

theorem context_passed_to_execute:
  assumes "distinct (map fst (context_or_empty context))"
  shows "map_of (enhanced_context now user_input context)
           = map_of [(''timestamp'', PyStr now), (''user_input'', PyStr user_input)]
               ++ map_of (context_or_empty context)
         \<and> (plugins (plugin_manager a) = pre @ (name, p) # post
              \<and> (\<forall>(m, q) \<in> set pre. call_can_handle q user_input = Inr False)
              \<and> call_can_handle p user_input = Inr True
            \<longrightarrow> process_input a now now_exchange user_input context
                  = (case call_execute p user_input (enhanced_context now user_input context) of
                       (p', Inl e) \<Rightarrow>
                         (except_Exception e,
                          a\<lparr>plugin_manager :=
                              (plugin_manager a)\<lparr>plugins := pre @ (name, p') # post\<rparr>\<rparr>)
                     | (p', Inr response) \<Rightarrow>
                         (Inr response,
                          a\<lparr>plugin_manager :=
                              (plugin_manager a)\<lparr>plugins := pre @ (name, p') # post\<rparr>,
                            conversation_manager :=
                              add_exchange (conversation_manager a) now_exchange user_input
                                response\<rparr>)))
         \<and> ((\<forall>(m, q) \<in> set (plugins (plugin_manager a)). call_can_handle q user_input = Inr False)
            \<longrightarrow> process_input a now now_exchange user_input context
                  = (Inr (fst (get_response (conversation_manager a) now_exchange user_input
                                 (enhanced_context now user_input context))),
                     a\<lparr>conversation_manager :=
                         snd (get_response (conversation_manager a) now_exchange user_input
                                (enhanced_context now user_input context))\<rparr>))"
proof (intro conjI impI)
  show "map_of (enhanced_context now user_input context)
           = map_of [(''timestamp'', PyStr now), (''user_input'', PyStr user_input)]
               ++ map_of (context_or_empty context)"
    using assms by (simp add: enhanced_context_def map_of_fold_update)
next
  assume "plugins (plugin_manager a) = pre @ (name, p) # post
              \<and> (\<forall>(m, q) \<in> set pre. call_can_handle q user_input = Inr False)
              \<and> call_can_handle p user_input = Inr True"
  then show "process_input a now now_exchange user_input context
                  = (case call_execute p user_input (enhanced_context now user_input context) of
                       (p', Inl e) \<Rightarrow>
                         (except_Exception e,
                          a\<lparr>plugin_manager :=
                              (plugin_manager a)\<lparr>plugins := pre @ (name, p') # post\<rparr>\<rparr>)
                     | (p', Inr response) \<Rightarrow>
                         (Inr response,
                          a\<lparr>plugin_manager :=
                              (plugin_manager a)\<lparr>plugins := pre @ (name, p') # post\<rparr>,
                            conversation_manager :=
                              add_exchange (conversation_manager a) now_exchange user_input
                                response\<rparr>))"
    by (intro process_input_first_claimant) simp_all
next
  assume "\<forall>(m, q) \<in> set (plugins (plugin_manager a)). call_can_handle q user_input = Inr False"
  then show "process_input a now now_exchange user_input context
                  = (Inr (fst (get_response (conversation_manager a) now_exchange user_input
                                 (enhanced_context now user_input context))),
                     a\<lparr>conversation_manager :=
                         snd (get_response (conversation_manager a) now_exchange user_input
                                (enhanced_context now user_input context))\<rparr>)"
    by (rule process_input_no_claimant)
qed

text \<open>
  A caller's context with a \<open>timestamp\<close> and one more key, on an assistant whose second
  plugin answers with the timestamp of the context it receives: the caller's timestamp
  and key are in the dictionary, \<open>user_input\<close> is the assistant's, and the response is
  the caller's timestamp, read by \<open>execute\<close> from the context it was passed.
\<close>

theorem context_passed_to_execute_witness:
  "distinct (map fst (context_or_empty (Some [(''timestamp'', PyStr ''spoofed''), (''mood'', PyOther ())])))
   \<and> map_of (enhanced_context ''2026-01-01T09:00:00'' ''hello''
              (Some [(''timestamp'', PyStr ''spoofed''), (''mood'', PyOther ())])) ''timestamp''
       = Some (PyStr ''spoofed'')
   \<and> map_of (enhanced_context ''2026-01-01T09:00:00'' ''hello''
              (Some [(''timestamp'', PyStr ''spoofed''), (''mood'', PyOther ())])) ''user_input''
       = Some (PyStr ''hello'')
   \<and> map_of (enhanced_context ''2026-01-01T09:00:00'' ''hello''
              (Some [(''timestamp'', PyStr ''spoofed''), (''mood'', PyOther ())])) ''mood''
       = Some (PyOther ())
   \<and> call_can_handle (fixture_plugin True ''forecast'' ''sunny'') ''hello'' = Inr False
   \<and> call_can_handle timestamp_plugin ''hello'' = Inr True
   \<and> fst (process_input
          (fixture_assistant
             [(''weather'', fixture_plugin True ''forecast'' ''sunny''), (''echo'', timestamp_plugin)])
          ''2026-01-01T09:00:00'' ''t2'' ''hello''
          (Some [(''timestamp'', PyStr ''spoofed''), (''mood'', PyOther ())]))
       = Inr ''spoofed''
   \<and> conversation_history (conversation_manager (snd (process_input
          (fixture_assistant
             [(''weather'', fixture_plugin True ''forecast'' ''sunny''), (''echo'', timestamp_plugin)])
          ''2026-01-01T09:00:00'' ''t2'' ''hello''
          (Some [(''timestamp'', PyStr ''spoofed''), (''mood'', PyOther ())]))))
       = [\<lparr>timestamp = ''t2'', user = ''hello'', assistant = ''spoofed''\<rparr>]"
proof -
  let ?c = "Some [(''timestamp'', PyStr ''spoofed''), (''mood'', PyOther ())] :: unit pydict option"
  let ?a = "fixture_assistant
             [(''weather'', fixture_plugin True ''forecast'' ''sunny''), (''echo'', timestamp_plugin)]"
  have d: "distinct (map fst (context_or_empty ?c))"
    by (simp add: context_or_empty_def)
  have s: "plugins (plugin_manager ?a)
             = [(''weather'', fixture_plugin True ''forecast'' ''sunny'')] @ (''echo'', timestamp_plugin) # []"
    by (simp add: fixture_assistant_def)
  have f: "\<forall>(m, q) \<in> set [(''weather'', fixture_plugin True ''forecast'' ''sunny'')].
             call_can_handle q ''hello'' = Inr False"
    by (simp add: fixture_plugin_def call_can_handle_def)
  have t: "call_can_handle timestamp_plugin ''hello'' = Inr True"
    by (simp add: timestamp_plugin_def call_can_handle_def)
  note inst = context_passed_to_execute
    [OF d, of "''2026-01-01T09:00:00''" "''hello''" "?a"
       "[(''weather'', fixture_plugin True ''forecast'' ''sunny'')]" "''echo''" timestamp_plugin "[]"
       "''t2''"]
  from inst have m: "map_of (enhanced_context ''2026-01-01T09:00:00'' ''hello'' ?c)
           = map_of [(''timestamp'', PyStr ''2026-01-01T09:00:00''), (''user_input'', PyStr ''hello'')]
               ++ map_of (context_or_empty ?c)"
    by blast
  from inst s f t
  have p: "process_input ?a ''2026-01-01T09:00:00'' ''t2'' ''hello'' ?c
             = (case call_execute timestamp_plugin ''hello''
                       (enhanced_context ''2026-01-01T09:00:00'' ''hello'' ?c) of
                  (p', Inl e) \<Rightarrow>
                    (except_Exception e,
                     ?a\<lparr>plugin_manager := (plugin_manager ?a)
                          \<lparr>plugins := [(''weather'', fixture_plugin True ''forecast'' ''sunny'')]
                                        @ (''echo'', p') # []\<rparr>\<rparr>)
                | (p', Inr response) \<Rightarrow>
                    (Inr response,
                     ?a\<lparr>plugin_manager := (plugin_manager ?a)
                          \<lparr>plugins := [(''weather'', fixture_plugin True ''forecast'' ''sunny'')]
                                        @ (''echo'', p') # []\<rparr>,
                        conversation_manager :=
                          add_exchange (conversation_manager ?a) ''t2'' ''hello'' response\<rparr>))"
    by blast
  have e: "snd (call_execute timestamp_plugin ''hello''
                  (enhanced_context ''2026-01-01T09:00:00'' ''hello'' ?c)) = Inr ''spoofed''"
    by (simp add: m context_or_empty_def call_execute_def timestamp_plugin_def map_add_def)
  then obtain p' where e': "call_execute timestamp_plugin ''hello''
                  (enhanced_context ''2026-01-01T09:00:00'' ''hello'' ?c) = (p', Inr ''spoofed'')"
    by (metis prod.collapse)
  have r: "fst (process_input ?a ''2026-01-01T09:00:00'' ''t2'' ''hello'' ?c) = Inr ''spoofed''"
    by (simp add: p e')
  have h: "conversation_history (conversation_manager
             (snd (process_input ?a ''2026-01-01T09:00:00'' ''t2'' ''hello'' ?c)))
           = [\<lparr>timestamp = ''t2'', user = ''hello'', assistant = ''spoofed''\<rparr>]"
    by (simp add: p e')
      (simp add: fixture_assistant_def initialize_def ConversationManager_init_def
         add_exchange_def)
  have f': "call_can_handle (fixture_plugin True ''forecast'' ''sunny'') ''hello'' = Inr False"
    by (simp add: fixture_plugin_def call_can_handle_def)
  show ?thesis
    using d r h t f' by (simp add: m context_or_empty_def)
qed

text \<open>
  Against claim C3 as stated: a caller's context with entries under \<open>timestamp\<close> and
  \<open>user_input\<close> replaces both of the assistant's values, and the plugin that answers with
  the timestamp of its context answers with the caller's.
\<close>

theorem reserved_keys_overridden_counterexample:
  "enhanced_context ''2026-01-01T09:00:00'' ''hello''
     (Some [(''timestamp'', PyStr ''spoofed''), (''user_input'', PyStr ''forged'')])
     = [(''timestamp'', PyStr ''spoofed''), (''user_input'', PyStr ''forged'' :: unit pyval)]
   \<and> fst (process_input (fixture_assistant [(''echo'', timestamp_plugin)])
         ''2026-01-01T09:00:00'' ''t2'' ''hello''
         (Some [(''timestamp'', PyStr ''spoofed''), (''user_input'', PyStr ''forged'')]))
       = Inr ''spoofed''"
  by (simp add: enhanced_context_def context_or_empty_def process_input_def Let_def
        fixture_assistant_def timestamp_plugin_def call_can_handle_def call_execute_def)

section \<open>Routing\<close>

text \<open>
  Claim C1, as the loop routes. The scan goes through the registered plugins in order
  and tests \<open>can_handle\<close> alone: a plugin whose \<open>enabled\<close> attribute is false, and which is
  the first whose \<open>can_handle\<close> returns true, is executed. After the call the registry
  holds that plugin as its \<open>execute\<close> left it, and the outcome of the call is what its
  \<open>execute\<close> returned, or what the \<open>except\<close> clause makes of the exception it raised.
\<close>

theorem disabled_claimant_executed:
  assumes "plugins (plugin_manager a) = pre @ (name, p) # post"
    and "\<forall>(m, q) \<in> set pre. call_can_handle q user_input = Inr False"
    and "call_can_handle p user_input = Inr True"
    and "\<not> is_enabled p"
  shows "plugins (plugin_manager (snd (process_input a now_context now_exchange user_input context)))
           = pre @ (name, fst (call_execute p user_input
                                 (enhanced_context now_context user_input context))) # post
         \<and> fst (process_input a now_context now_exchange user_input context)
             = (case snd (call_execute p user_input
                            (enhanced_context now_context user_input context)) of
                  Inl e \<Rightarrow> except_Exception e
                | Inr response \<Rightarrow> Inr response)"
  using process_input_first_claimant [OF assms(1-3), of now_context now_exchange "context"]
  by (simp split: prod.splits sum.splits)

text \<open>
  A disabled plugin that claims the input, registered behind an enabled one that does
  not: the disabled plugin's \<open>execute\<close> is called once and its reply is the response.
\<close>

theorem disabled_claimant_executed_witness:
  "is_enabled (fixture_plugin False ''remind me'' ''from off'') = False
   \<and> call_can_handle (fixture_plugin True ''forecast'' ''sunny'') ''remind me'' = Inr False
   \<and> call_can_handle (fixture_plugin False ''remind me'' ''from off'') ''remind me'' = Inr True
   \<and> fst (process_input
          (fixture_assistant
             [(''weather'', fixture_plugin True ''forecast'' ''sunny''),
              (''off'', fixture_plugin False ''remind me'' ''from off'')])
          ''t1'' ''t2'' ''remind me'' None) = Inr ''from off''
   \<and> executions (snd (process_input
          (fixture_assistant
             [(''weather'', fixture_plugin True ''forecast'' ''sunny''),
              (''off'', fixture_plugin False ''remind me'' ''from off'')])
          ''t1'' ''t2'' ''remind me'' None))
       = [(''weather'', True, 0), (''off'', False, 1)]"
proof -
  let ?a = "fixture_assistant
             [(''weather'', fixture_plugin True ''forecast'' ''sunny''),
              (''off'', fixture_plugin False ''remind me'' ''from off'')]"
  have s: "plugins (plugin_manager ?a)
             = [(''weather'', fixture_plugin True ''forecast'' ''sunny'')]
                 @ (''off'', fixture_plugin False ''remind me'' ''from off'') # []"
    by (simp add: fixture_assistant_def)
  have f: "\<forall>(m, q) \<in> set [(''weather'', fixture_plugin True ''forecast'' ''sunny'')].
             call_can_handle q ''remind me'' = Inr False"
    by (simp add: fixture_plugin_def call_can_handle_def)
  have t: "call_can_handle (fixture_plugin False ''remind me'' ''from off'') ''remind me'' = Inr True"
    by (simp add: fixture_plugin_def call_can_handle_def)
  have n: "\<not> is_enabled (fixture_plugin False ''remind me'' ''from off'')"
    by (simp add: fixture_plugin_def is_enabled_def)
  have e: "call_execute (fixture_plugin False ''remind me'' ''from off'') ''remind me''
             (enhanced_context ''t1'' ''remind me'' None)
           = ((fixture_plugin False ''remind me'' ''from off'')\<lparr>pstate := 1\<rparr>, Inr ''from off'')"
    by (simp add: fixture_plugin_def call_execute_def)
  from disabled_claimant_executed [OF s f t n, of "''t1''" "''t2''" None] e
  have "plugins (plugin_manager (snd (process_input ?a ''t1'' ''t2'' ''remind me'' None)))
          = [(''weather'', fixture_plugin True ''forecast'' ''sunny'')]
              @ (''off'', (fixture_plugin False ''remind me'' ''from off'')\<lparr>pstate := 1\<rparr>) # []"
    and r: "fst (process_input ?a ''t1'' ''t2'' ''remind me'' None) = Inr ''from off''"
    by simp_all
  then have "executions (snd (process_input ?a ''t1'' ''t2'' ''remind me'' None))
               = [(''weather'', True, 0), (''off'', False, 1)]"
    by (simp add: executions_def is_enabled_def fixture_plugin_def)
  with r n t f show ?thesis
    by simp
qed

text \<open>
  Against claim C1 as stated: the only registered plugin is disabled and claims the
  input; its \<open>execute\<close> is called once and its reply is the response.
\<close>

theorem disabled_plugin_routed_counterexample:
  "is_enabled (fixture_plugin False ''remind me'' ''from off'') = False
   \<and> fst (process_input (fixture_assistant [(''off'', fixture_plugin False ''remind me'' ''from off'')])
            ''t1'' ''t2'' ''remind me'' None) = Inr ''from off''
   \<and> executions (snd (process_input (fixture_assistant [(''off'', fixture_plugin False ''remind me'' ''from off'')])
            ''t1'' ''t2'' ''remind me'' None)) = [(''off'', False, 1)]"
  by (simp add: process_input_def fixture_assistant_def fixture_plugin_def executions_def
        is_enabled_def call_can_handle_def call_execute_def Let_def)

text \<open>
  Claim C2, as the loop routes. When the plugins registered before one return false
  from \<open>can_handle\<close>, and that one returns true and its \<open>execute\<close> returns a response,
  \<open>process_input\<close> returns that response, records the exchange, and changes the registry
  at that plugin alone: no plugin registered later is executed, whether it claims the
  input or not. The \<open>enabled\<close> attributes are not consulted. The result is a function
  of the assistant and the call, so it is the same every time.
\<close>

theorem process_input_first_match:
  assumes "plugins (plugin_manager a) = pre @ (name, p) # post"
    and "\<forall>(m, q) \<in> set pre. call_can_handle q user_input = Inr False"
    and "call_can_handle p user_input = Inr True"
    and "call_execute p user_input (enhanced_context now_context user_input context)
           = (p', Inr response)"
  shows "process_input a now_context now_exchange user_input context
           = (Inr response,
              a\<lparr>plugin_manager := (plugin_manager a)\<lparr>plugins := pre @ (name, p') # post\<rparr>,
                conversation_manager :=
                  add_exchange (conversation_manager a) now_exchange user_input response\<rparr>)"
  using assms by (simp add: process_input_def Let_def loop_first_match)

text \<open>
  Three plugins, the second and third claiming the input, the second disabled: the
  second is executed once, the third never.
\<close>

theorem process_input_first_match_witness:
  "fst (process_input
     (fixture_assistant
        [(''weather'', fixture_plugin True ''forecast'' ''sunny''),
         (''a'', fixture_plugin False ''remind me'' ''from a''),
         (''b'', fixture_plugin True ''remind me'' ''from b'')])
     ''t1'' ''t2'' ''remind me'' None) = Inr ''from a''
   \<and> executions (snd (process_input
     (fixture_assistant
        [(''weather'', fixture_plugin True ''forecast'' ''sunny''),
         (''a'', fixture_plugin False ''remind me'' ''from a''),
         (''b'', fixture_plugin True ''remind me'' ''from b'')])
     ''t1'' ''t2'' ''remind me'' None))
       = [(''weather'', True, 0), (''a'', False, 1), (''b'', True, 0)]
   \<and> conversation_history (conversation_manager (snd (process_input
     (fixture_assistant
        [(''weather'', fixture_plugin True ''forecast'' ''sunny''),
         (''a'', fixture_plugin False ''remind me'' ''from a''),
         (''b'', fixture_plugin True ''remind me'' ''from b'')])
     ''t1'' ''t2'' ''remind me'' None)))
       = [\<lparr>timestamp = ''t2'', user = ''remind me'', assistant = ''from a''\<rparr>]"
  using process_input_first_match
    [of "fixture_assistant
        [(''weather'', fixture_plugin True ''forecast'' ''sunny''),
         (''a'', fixture_plugin False ''remind me'' ''from a''),
         (''b'', fixture_plugin True ''remind me'' ''from b'')]"
        "[(''weather'', fixture_plugin True ''forecast'' ''sunny'')]"
        "''a''" "fixture_plugin False ''remind me'' ''from a''"
        "[(''b'', fixture_plugin True ''remind me'' ''from b'')]"
        "''remind me''" "''t1''" None
        "(fixture_plugin False ''remind me'' ''from a'')\<lparr>pstate := 1\<rparr>" "''from a''" "''t2''"]
  by (simp add: fixture_assistant_def fixture_plugin_def executions_def is_enabled_def
        call_can_handle_def call_execute_def add_exchange_def initialize_def
        ConversationManager_init_def)

text \<open>
  Against claim C2 as stated: two enabled plugins claim the input, and a disabled plugin
  registered before both claims it too. The disabled plugin is executed and its reply
  returned; the earliest enabled plugin that claims the input is not executed.
\<close>

theorem earliest_enabled_counterexample:
  "call_can_handle (fixture_plugin True ''remind me'' ''from a'') ''remind me'' = Inr True
   \<and> call_can_handle (fixture_plugin True ''remind me'' ''from b'') ''remind me'' = Inr True
   \<and> fst (process_input
     (fixture_assistant
        [(''off'', fixture_plugin False ''remind me'' ''from off''),
         (''a'', fixture_plugin True ''remind me'' ''from a''),
         (''b'', fixture_plugin True ''remind me'' ''from b'')])
     ''t1'' ''t2'' ''remind me'' None) = Inr ''from off''
   \<and> executions (snd (process_input
     (fixture_assistant
        [(''off'', fixture_plugin False ''remind me'' ''from off''),
         (''a'', fixture_plugin True ''remind me'' ''from a''),
         (''b'', fixture_plugin True ''remind me'' ''from b'')])
     ''t1'' ''t2'' ''remind me'' None))
       = [(''off'', False, 1), (''a'', True, 0), (''b'', True, 0)]"
  by (simp add: process_input_def fixture_assistant_def fixture_plugin_def executions_def
        is_enabled_def call_can_handle_def call_execute_def Let_def)

text \<open>
  Claim C6, as the loop routes. When every registered plugin, enabled or not, returns
  false from \<open>can_handle\<close>, \<open>process_input\<close> returns what \<open>get_response\<close> returns on the
  same context and leaves the plugins as they were; on an initialized conversation
  manager, which every constructed assistant has, that is the stub response, and the
  exchange of the input and this response is appended to the history.
\<close>

theorem process_input_fallback:
  assumes "\<forall>(m, q) \<in> set (plugins (plugin_manager a)). call_can_handle q user_input = Inr False"
  shows "process_input a now_context now_exchange user_input context
           = (Inr (fst (get_response (conversation_manager a) now_exchange user_input
                          (enhanced_context now_context user_input context))),
              a\<lparr>conversation_manager :=
                  snd (get_response (conversation_manager a) now_exchange user_input
                         (enhanced_context now_context user_input context))\<rparr>)
         \<and> (initialized (conversation_manager a) \<longrightarrow>
               fst (process_input a now_context now_exchange user_input context)
                 = Inr (stub_response user_input)
               \<and> conversation_history (conversation_manager
                     (snd (process_input a now_context now_exchange user_input context)))
                   = last_n 50 (conversation_history (conversation_manager a)
                       @ [\<lparr>timestamp = now_exchange, user = user_input,
                            assistant = stub_response user_input\<rparr>]))"
  using assms
  by (simp add: process_input_def Let_def loop_no_match get_response_def history_add_exchange
        split: prod.splits)

text \<open>
  An input the only plugin does not claim.
\<close>

theorem process_input_fallback_witness:
  "map (\<lambda>(m, q). call_can_handle q ''hello'') (plugins (plugin_manager
        (fixture_assistant [(''tasks'', fixture_plugin True ''remind me'' ''noted'')])))
     = [Inr False]
   \<and> initialized (conversation_manager
        (fixture_assistant [(''tasks'', fixture_plugin True ''remind me'' ''noted'')]))
   \<and> fst (process_input (fixture_assistant [(''tasks'', fixture_plugin True ''remind me'' ''noted'')])
          ''t1'' ''t2'' ''hello'' None)
       = Inr ''I understand you said: 'hello'. I'm still learning how to help you better!''
   \<and> conversation_history (conversation_manager
        (snd (process_input (fixture_assistant [(''tasks'', fixture_plugin True ''remind me'' ''noted'')])
          ''t1'' ''t2'' ''hello'' None)))
       = [\<lparr>timestamp = ''t2'', user = ''hello'',
           assistant = ''I understand you said: 'hello'. I'm still learning how to help you better!''\<rparr>]"
proof -
  have h: "\<forall>(m, q) \<in> set (plugins (plugin_manager
        (fixture_assistant [(''tasks'', fixture_plugin True ''remind me'' ''noted'')]))).
        call_can_handle q ''hello'' = Inr False"
    by (simp add: fixture_assistant_def fixture_plugin_def call_can_handle_def)
  have i: "initialized (conversation_manager
        (fixture_assistant [(''tasks'', fixture_plugin True ''remind me'' ''noted'')]))"
    by (simp add: fixture_assistant_def initialize_def)
  have e: "conversation_history (conversation_manager
        (fixture_assistant [(''tasks'', fixture_plugin True ''remind me'' ''noted'')])) = []"
    by (simp add: fixture_assistant_def initialize_def ConversationManager_init_def)
  from process_input_fallback [OF h, of "''t1''" "''t2''" None] i
  have "fst (process_input (fixture_assistant [(''tasks'', fixture_plugin True ''remind me'' ''noted'')])
          ''t1'' ''t2'' ''hello'' None) = Inr (stub_response ''hello'')
     \<and> conversation_history (conversation_manager
        (snd (process_input (fixture_assistant [(''tasks'', fixture_plugin True ''remind me'' ''noted'')])
          ''t1'' ''t2'' ''hello'' None)))
       = last_n 50 (conversation_history (conversation_manager
            (fixture_assistant [(''tasks'', fixture_plugin True ''remind me'' ''noted'')]))
           @ [\<lparr>timestamp = ''t2'', user = ''hello'', assistant = stub_response ''hello''\<rparr>])"
    by blast
  moreover have "map (\<lambda>(m, q). call_can_handle q ''hello'') (plugins (plugin_manager
        (fixture_assistant [(''tasks'', fixture_plugin True ''remind me'' ''noted'')])))
     = [Inr False]"
    by (simp add: fixture_assistant_def fixture_plugin_def call_can_handle_def)
  ultimately show ?thesis
    using i e by (simp add: stub_response_def last_n_def)
qed

text \<open>
  Against claim C6 as stated: no enabled plugin claims the input, a disabled one does.
  The response is that plugin's reply, not what \<open>get_response\<close> returns, and the recorded
  exchange holds the plugin's reply.
\<close>

theorem disabled_match_no_fallback_counterexample:
  "filter (\<lambda>(name, p). is_enabled p \<and> call_can_handle p ''remind me'' = Inr True)
     (plugins (plugin_manager
        (fixture_assistant [(''off'', fixture_plugin False ''remind me'' ''from off'')]))) = []
   \<and> fst (get_response
        (conversation_manager (fixture_assistant [(''off'', fixture_plugin False ''remind me'' ''from off'')]))
        ''t2'' ''remind me'' (enhanced_context ''t1'' ''remind me'' None))
       = ''I understand you said: 'remind me'. I'm still learning how to help you better!''
   \<and> fst (process_input (fixture_assistant [(''off'', fixture_plugin False ''remind me'' ''from off'')])
          ''t1'' ''t2'' ''remind me'' None) = Inr ''from off''
   \<and> conversation_history (conversation_manager
        (snd (process_input (fixture_assistant [(''off'', fixture_plugin False ''remind me'' ''from off'')])
          ''t1'' ''t2'' ''remind me'' None)))
       = [\<lparr>timestamp = ''t2'', user = ''remind me'', assistant = ''from off''\<rparr>]"
  by (simp add: process_input_def fixture_assistant_def fixture_plugin_def is_enabled_def
        call_can_handle_def call_execute_def Let_def get_response_def stub_response_def
        initialize_def ConversationManager_init_def add_exchange_def)

section \<open>Faults\<close>

text \<open>
  Claim C4, as the \<open>except\<close> clause handles a fault. The calls of \<open>process_input\<close> that
  can raise on arguments of the declared types are those of the plugin methods in the
  routing loop; building the context and the fallback responder do not raise, so a call
  whose loop ends without an exception returns a response. When the loop ends with an
  exception \<open>e\<close>: if \<open>e\<close> is an instance of \<open>Exception\<close> and \<open>str(e)\<close> returns,
  \<open>process_input\<close> returns the apology with that message; if \<open>e\<close> is not an instance of
  \<open>Exception\<close> it propagates to the caller, and if \<open>str(e)\<close> raises, the exception it
  raises propagates. In each of these cases, and so whenever an exception propagates
  from \<open>process_input\<close>, the conversation manager, and with it the length of the history,
  is what it was before the call.
\<close>

theorem process_input_fault:
  "(snd (process_input_loop (plugins (plugin_manager a)) user_input
           (enhanced_context now_context user_input context)) = Inl e
      \<longrightarrow> fst (process_input a now_context now_exchange user_input context)
            = (if is_Exception e
               then (case str_of e of
                       Inl e' \<Rightarrow> Inl e'
                     | Inr m \<Rightarrow> Inr (''I'm sorry, I encountered an error: '' @ m))
               else Inl e)
          \<and> conversation_manager (snd (process_input a now_context now_exchange user_input context))
              = conversation_manager a
          \<and> length (conversation_history (conversation_manager
                (snd (process_input a now_context now_exchange user_input context))))
              = length (conversation_history (conversation_manager a)))
   \<and> ((\<forall>x. snd (process_input_loop (plugins (plugin_manager a)) user_input
                  (enhanced_context now_context user_input context)) \<noteq> Inl x)
      \<longrightarrow> (\<exists>response. fst (process_input a now_context now_exchange user_input context)
                         = Inr response))
   \<and> ((\<exists>x. fst (process_input a now_context now_exchange user_input context) = Inl x)
      \<longrightarrow> conversation_manager (snd (process_input a now_context now_exchange user_input context))
            = conversation_manager a)"
proof -
  obtain ps r where l: "process_input_loop (plugins (plugin_manager a)) user_input
                          (enhanced_context now_context user_input context) = (ps, r)"
    by (cases "process_input_loop (plugins (plugin_manager a)) user_input
                 (enhanced_context now_context user_input context)")
  show ?thesis
  proof (cases r)
    case (Inl x)
    with l show ?thesis
      by (simp add: process_input_def Let_def except_Exception_def error_message_def
            split: sum.splits)
  next
    case (Inr found)
    with l show ?thesis
      by (cases found) (simp_all add: process_input_def Let_def split: prod.splits)
  qed
qed

text \<open>
  A plugin whose \<open>execute\<close> raises an \<open>Exception\<close> with a message on the input it claims,
  behind one that does not claim it: the apology is returned and the conversation
  manager is the one the assistant started with.
\<close>

theorem process_input_fault_witness:
  "snd (process_input_loop
          (plugins (plugin_manager (fixture_assistant
             [(''quiet'', fixture_plugin True ''forecast'' ''sunny''),
              (''broken'', raising_plugin ''remind me'' disk_full)])))
          ''remind me'' (enhanced_context ''t1'' ''remind me'' None)) = Inl disk_full
   \<and> is_Exception disk_full
   \<and> str_of disk_full = Inr ''disk full''
   \<and> fst (process_input (fixture_assistant
             [(''quiet'', fixture_plugin True ''forecast'' ''sunny''),
              (''broken'', raising_plugin ''remind me'' disk_full)])
          ''t1'' ''t2'' ''remind me'' None) = Inr ''I'm sorry, I encountered an error: disk full''
   \<and> conversation_manager (snd (process_input (fixture_assistant
             [(''quiet'', fixture_plugin True ''forecast'' ''sunny''),
              (''broken'', raising_plugin ''remind me'' disk_full)])
          ''t1'' ''t2'' ''remind me'' None))
       = \<lparr>conversation_history = [], initialized = True\<rparr>
   \<and> fst (process_input (fixture_assistant
             [(''quiet'', fixture_plugin True ''forecast'' ''sunny'')])
          ''t1'' ''t2'' ''forecast'' None) = Inr ''sunny''"
proof -
  let ?a = "fixture_assistant
             [(''quiet'', fixture_plugin True ''forecast'' ''sunny''),
              (''broken'', raising_plugin ''remind me'' disk_full)]"
  have h: "snd (process_input_loop (plugins (plugin_manager ?a))
                  ''remind me'' (enhanced_context ''t1'' ''remind me'' None)) = Inl disk_full"
    by (simp add: fixture_assistant_def fixture_plugin_def raising_plugin_def
          call_can_handle_def call_execute_def)
  have d: "is_Exception disk_full" "str_of disk_full = Inr ''disk full''"
    by (simp_all add: disk_full_def)
  note inst = process_input_fault [of ?a "''remind me''" "''t1''" None disk_full "''t2''"]
  from inst h d
  have "fst (process_input ?a ''t1'' ''t2'' ''remind me'' None)
          = Inr ''I'm sorry, I encountered an error: disk full''"
    and "conversation_manager (snd (process_input ?a ''t1'' ''t2'' ''remind me'' None))
          = conversation_manager ?a"
    by simp_all
  moreover have "conversation_manager ?a = \<lparr>conversation_history = [], initialized = True\<rparr>"
    by (simp add: fixture_assistant_def initialize_def ConversationManager_init_def)
  moreover have "fst (process_input (fixture_assistant
             [(''quiet'', fixture_plugin True ''forecast'' ''sunny'')])
          ''t1'' ''t2'' ''forecast'' None) = Inr ''sunny''"
    by (simp add: process_input_def Let_def fixture_assistant_def fixture_plugin_def
          call_can_handle_def call_execute_def)
  ultimately show ?thesis
    using h d by simp
qed

text \<open>
  Against claim C4 as stated: a plugin whose \<open>execute\<close> raises \<open>KeyboardInterrupt\<close>, which
  is no instance of \<open>Exception\<close>, and one whose \<open>execute\<close> raises an \<open>Exception\<close> whose
  \<open>__str__\<close> raises. In both calls no string is returned: an exception propagates from
  \<open>process_input\<close>.
\<close>

theorem uncaught_exception_counterexample:
  "is_Exception keyboard_interrupt = False
   \<and> fst (process_input
          (fixture_assistant [(''broken'', raising_plugin ''remind me'' keyboard_interrupt)])
          ''t1'' ''t2'' ''remind me'' None) = Inl keyboard_interrupt
   \<and> str_of unprintable = Inl (Raised True (Inr ''no message''))
   \<and> fst (process_input
          (fixture_assistant [(''broken'', raising_plugin ''remind me'' unprintable)])
          ''t1'' ''t2'' ''remind me'' None) = Inl (Raised True (Inr ''no message''))"
  by (simp add: process_input_def Let_def fixture_assistant_def raising_plugin_def
        call_can_handle_def call_execute_def except_Exception_def keyboard_interrupt_def
        unprintable_def)

section \<open>The bound on the history\<close>

text \<open>
  A constructed assistant has an initialized conversation manager with an empty history,
  and \<open>process_input\<close> keeps it initialized.
\<close>

lemma PersonalAssistant_init_ready:
  "initialized (conversation_manager (PersonalAssistant_init cfg directory))
   \<and> conversation_history (conversation_manager (PersonalAssistant_init cfg directory)) = []"
  by (simp add: PersonalAssistant_init_def initialize_def ConversationManager_init_def)

lemma initialized_process_input:
  "initialized (conversation_manager (snd (process_input a t1 t2 ui ctx)))
     = initialized (conversation_manager a)"
  by (simp add: process_input_def Let_def get_response_def initialized_add_exchange
        split: prod.splits sum.splits option.splits)

text \<open>
  A call that does not fault, on an initialized conversation manager, returns a response
  and appends exactly one exchange: the input with that response.
\<close>

lemma history_process_input:
  assumes "initialized (conversation_manager a)" and "\<not> faulted a t1 ui ctx"
  shows "\<exists>response. fst (process_input a t1 t2 ui ctx) = Inr response
           \<and> conversation_history (conversation_manager (snd (process_input a t1 t2 ui ctx)))
               = last_n 50 (conversation_history (conversation_manager a)
                   @ [\<lparr>timestamp = t2, user = ui, assistant = response\<rparr>])"
proof -
  obtain ps r where l: "process_input_loop (plugins (plugin_manager a)) ui
                          (enhanced_context t1 ui ctx) = (ps, Inr r)"
    using assms(2) by (cases "process_input_loop (plugins (plugin_manager a)) ui
                          (enhanced_context t1 ui ctx)") (auto simp: faulted_def split: sum.splits)
  show ?thesis
    using assms(1) l
    by (cases r) (simp_all add: process_input_def Let_def get_response_def history_add_exchange)
qed

lemma history_process_all:
  assumes "initialized (conversation_manager a)"
    and "length (conversation_history (conversation_manager a)) \<le> 50"
    and "all_succeed a calls"
  shows "\<exists>responses a'. process_all a calls = Inr (responses, a')
           \<and> length responses = length calls
           \<and> conversation_history (conversation_manager a')
               = last_n 50 (conversation_history (conversation_manager a)
                   @ exchanges_of calls responses)"
  using assms
proof (induction a calls rule: process_all.induct)
  case (1 a)
  then show ?case by (simp add: exchanges_of_def last_n_def)
next
  case (2 a t1 t2 ui ctx calls)
  from "2.prems" have nf: "\<not> faulted a t1 ui ctx"
    by simp
  obtain out a' where p: "process_input a t1 t2 ui ctx = (out, a')"
    by (cases "process_input a t1 t2 ui ctx")
  from history_process_input [OF "2.prems"(1) nf, of t2] p
  obtain r where o: "out = Inr r"
    and h1: "conversation_history (conversation_manager a')
              = last_n 50 (conversation_history (conversation_manager a)
                  @ [\<lparr>timestamp = t2, user = ui, assistant = r\<rparr>])"
    by auto
  from "2.prems" p have rest: "all_succeed a' calls"
    by simp
  have i1: "initialized (conversation_manager a')"
    using "2.prems"(1) initialized_process_input [of a t1 t2 ui ctx] p by simp
  have l1: "length (conversation_history (conversation_manager a')) \<le> 50"
    by (simp add: h1 length_last_n)
  from "2.IH" [OF p [symmetric] o i1 l1 rest]
  obtain rs a'' where q: "process_all a' calls = Inr (rs, a'')"
    and n: "length rs = length calls"
    and h2: "conversation_history (conversation_manager a'')
          = last_n 50 (conversation_history (conversation_manager a') @ exchanges_of calls rs)"
    by blast
  have "conversation_history (conversation_manager a'')
          = last_n 50 ((conversation_history (conversation_manager a)
                  @ [\<lparr>timestamp = t2, user = ui, assistant = r\<rparr>]) @ exchanges_of calls rs)"
    unfolding h2 h1 by (rule last_n_append_last_n_gen)
  with p o q n show ?case
    by (simp add: exchanges_of_def)
qed

lemma busy_run:
  "process_all busy_assistant three_calls
     = Inr ([''noted'', stub_response ''hello'', ''noted''],
        \<lparr>plugin_manager =
           \<lparr>config_plugins = [],
            plugins = [(''tasks'', (fixture_plugin True ''remind me'' ''noted'')\<lparr>pstate := 2\<rparr>)]\<rparr>,
         conversation_manager =
           \<lparr>conversation_history = replicate 47 earlier_exchange
              @ [\<lparr>timestamp = ''t2'', user = ''remind me'', assistant = ''noted''\<rparr>,
                 \<lparr>timestamp = ''t4'', user = ''hello'', assistant = stub_response ''hello''\<rparr>,
                 \<lparr>timestamp = ''t6'', user = ''remind me'', assistant = ''noted''\<rparr>],
            initialized = True\<rparr>\<rparr>)"
  by (simp add: busy_assistant_def three_calls_def process_input_def Let_def fixture_plugin_def
        call_can_handle_def call_execute_def add_exchange_def get_response_def last_n_def)

text \<open>
  Claim C5. From an initialized assistant whose history holds at most 50 exchanges, as
  the empty history of a new assistant does, any sequence of calls that all succeed
  returns, and afterwards the history is the last 50 of the old history followed by one
  exchange per call, in the order of the calls, each with the input and the response of
  its call. Its length is the smaller of 50 and the old length plus the number of calls,
  so it is exactly 50 after more than 50 calls. Every single \<open>add_exchange\<close> leaves at
  most 50 exchanges.
\<close>

theorem history_bounded_by_50:
  assumes "initialized (conversation_manager a)"
    and "length (conversation_history (conversation_manager a)) \<le> 50"
    and "all_succeed a calls"
  shows "(\<exists>responses a'. process_all a calls = Inr (responses, a')
            \<and> conversation_history (conversation_manager a')
                = last_n 50 (conversation_history (conversation_manager a)
                    @ exchanges_of calls responses)
            \<and> length (conversation_history (conversation_manager a'))
                = min 50 (length (conversation_history (conversation_manager a)) + length calls))
         \<and> length (conversation_history (add_exchange cm now user_input response)) \<le> 50"
proof -
  from history_process_all [OF assms]
  obtain responses a' where r: "process_all a calls = Inr (responses, a')"
    and n: "length responses = length calls"
    and h: "conversation_history (conversation_manager a')
               = last_n 50 (conversation_history (conversation_manager a)
                   @ exchanges_of calls responses)"
    by blast
  from n have "length (exchanges_of calls responses) = length calls"
    by (simp add: exchanges_of_def)
  then have "length (conversation_history (conversation_manager a'))
             = min 50 (length (conversation_history (conversation_manager a)) + length calls)"
    by (simp add: h length_last_n)
  with r h show ?thesis
    by (simp add: length_add_exchange)
qed

text \<open>
  Three successful calls on a history of 49: the two oldest exchanges are gone, the three
  new ones are at the end in the order of the calls, and 50 exchanges remain.
\<close>

theorem history_bounded_by_50_witness:
  "initialized (conversation_manager busy_assistant)
   \<and> length (conversation_history (conversation_manager busy_assistant)) \<le> 50
   \<and> all_succeed busy_assistant three_calls
   \<and> (\<exists>responses a'. process_all busy_assistant three_calls = Inr (responses, a')
        \<and> conversation_history (conversation_manager a')
            = replicate 47 earlier_exchange
                @ [\<lparr>timestamp = ''t2'', user = ''remind me'', assistant = ''noted''\<rparr>,
                   \<lparr>timestamp = ''t4'', user = ''hello'', assistant = stub_response ''hello''\<rparr>,
                   \<lparr>timestamp = ''t6'', user = ''remind me'', assistant = ''noted''\<rparr>]
        \<and> length (conversation_history (conversation_manager a')) = 50)"
proof -
  have i: "initialized (conversation_manager busy_assistant)"
    by (simp add: busy_assistant_def)
  have l: "length (conversation_history (conversation_manager busy_assistant)) \<le> 50"
    by (simp add: busy_assistant_def)
  have s: "all_succeed busy_assistant three_calls"
    by (simp add: busy_assistant_def three_calls_def faulted_def process_input_def Let_def
          fixture_plugin_def call_can_handle_def call_execute_def get_response_def)
  have n: "length three_calls = 3"
    "length (conversation_history (conversation_manager busy_assistant)) = 49"
    by (simp_all add: three_calls_def busy_assistant_def)
  from history_bounded_by_50 [OF i l s, of ConversationManager_init "''t''" "''u''" "''r''"]
  obtain responses a' where r: "process_all busy_assistant three_calls = Inr (responses, a')"
    and h: "conversation_history (conversation_manager a')
              = last_n 50 (conversation_history (conversation_manager busy_assistant)
                  @ exchanges_of three_calls responses)"
    and m: "length (conversation_history (conversation_manager a'))
              = min 50 (length (conversation_history (conversation_manager busy_assistant))
                  + length three_calls)"
    by blast
  from r have rs: "responses = [''noted'', stub_response ''hello'', ''noted'']"
    by (simp add: busy_run)
  have "conversation_history (conversation_manager a')
          = replicate 47 earlier_exchange
                @ [\<lparr>timestamp = ''t2'', user = ''remind me'', assistant = ''noted''\<rparr>,
                   \<lparr>timestamp = ''t4'', user = ''hello'', assistant = stub_response ''hello''\<rparr>,
                   \<lparr>timestamp = ''t6'', user = ''remind me'', assistant = ''noted''\<rparr>]"
    unfolding h rs
    by (simp add: busy_assistant_def three_calls_def exchanges_of_def last_n_def)
  moreover from m have "length (conversation_history (conversation_manager a')) = 50"
    by (simp add: n)
  ultimately show ?thesis
    using i l s r by simp
qed

end
